theory Spec2Isabelle
  imports Main
begin

section \<open>JavaScript values\<close>

text \<open>
  The values that travel through the Drive client, the browser storage and the guest
  protocol are JSON trees. A JavaScript value is a JSON tree or \<open>undefined\<close>
  (\<open>None\<close>). An object is the list of its members; a member holding \<open>undefined\<close>
  is not kept, since every read the program makes of such an object is a read by
  name, which cannot tell it from an absent member, and \<open>JSON.stringify\<close> drops it.
  Numbers are the integers (timestamps in milliseconds).
\<close>

datatype json =
    JNull
  | JBool bool
  | JNum int
  | JStr string
  | JArr "json list"
  | JObj "(string \<times> json) list"

type_synonym jsval = "json option"

text \<open>Truthiness, as tested by \<open>if (x)\<close>, \<open>!x\<close> and \<open>x || y\<close>.\<close>

fun truthy :: "jsval \<Rightarrow> bool" where
  "truthy None = False"
| "truthy (Some JNull) = False"
| "truthy (Some (JBool b)) = b"
| "truthy (Some (JNum n)) = (n \<noteq> 0)"
| "truthy (Some (JStr s)) = (s \<noteq> [])"
| "truthy (Some (JArr xs)) = True"
| "truthy (Some (JObj ps)) = True"

text \<open>
  \<open>x.k\<close> for one of the member names the program reads (\<open>data\<close>, \<open>syncTime\<close>,
  \<open>type\<close>): the own member of an object, the last one of that name when the text
  the object was parsed from repeats it, and \<open>undefined\<close> on every other value the
  program can hold there (each such read is behind a truthiness test or an
  \<open>|| {}\<close>, so it never reads from \<open>null\<close> or \<open>undefined\<close>). Members
  inherited from \<open>Object.prototype\<close> are not modelled: the ids used as keys and
  the member names read are taken not to be names such as \<open>toString\<close>.
\<close>

fun get_prop :: "jsval \<Rightarrow> string \<Rightarrow> jsval" where
  "get_prop (Some (JObj ps)) k = map_of (rev ps) k"
| "get_prop _ k = None"

function show_nat :: "nat \<Rightarrow> string" where
  "show_nat n =
     (if n < 10 then [char_of (48 + n)]
      else show_nat (n div 10) @ [char_of (48 + n mod 10)])"
  by pat_completeness auto
termination
  by (relation "measure id") auto

declare show_nat.simps [simp del]

text \<open>The members an object spread \<open>{...x}\<close> copies, in order.\<close>

fun own_props :: "jsval \<Rightarrow> (string \<times> json) list" where
  "own_props (Some (JObj ps)) = ps"
| "own_props (Some (JArr xs)) = zip (map show_nat [0..<length xs]) xs"
| "own_props (Some (JStr s)) = zip (map show_nat [0..<length s]) (map (\<lambda>c. JStr [c]) s)"
| "own_props _ = []"

text \<open>
  A member \<open>k: v\<close> written after the spread in an object literal. The later member
  wins on reading; a member set to \<open>undefined\<close> reads as absent.
\<close>

definition set_prop :: "(string \<times> json) list \<Rightarrow> string \<Rightarrow> jsval \<Rightarrow> (string \<times> json) list" where
  "set_prop ps k v =
     (case v of
        None \<Rightarrow> filter (\<lambda>p. fst p \<noteq> k) ps
      | Some x \<Rightarrow> ps @ [(k, x)])"

section \<open>Objects used as tables: property order\<close>

text \<open>
  \<open>Object.entries\<close> lists the array-index keys first, in ascending numeric order,
  then the other string keys in the order of their creation. An array index is a
  canonical decimal numeral below \<open>2^32 - 1\<close>.
\<close>

definition is_digit :: "char \<Rightarrow> bool" where
  "is_digit c \<longleftrightarrow> c \<in> set ''0123456789''"

definition nat_of_digits :: "string \<Rightarrow> nat" where
  "nat_of_digits s = foldl (\<lambda>n c. 10 * n + (of_char c - 48)) 0 s"

definition array_index :: "string \<Rightarrow> nat option" where
  "array_index s =
     (if s \<noteq> [] \<and> list_all is_digit s \<and> (length s = 1 \<or> hd s \<noteq> CHR ''0'')
         \<and> nat_of_digits s < 4294967295
      then Some (nat_of_digits s) else None)"

fun insert_index :: "nat \<Rightarrow> string \<times> 'a \<Rightarrow> (string \<times> 'a) list \<Rightarrow> (string \<times> 'a) list" where
  "insert_index i kv [] = [kv]"
| "insert_index i kv (p # ps) =
     (case array_index (fst p) of
        Some j \<Rightarrow> if j < i then p # insert_index i kv ps else kv # p # ps
      | None \<Rightarrow> kv # p # ps)"

text \<open>\<open>obj[k] = v\<close>: an existing key keeps its place, a new one takes its place in the order.\<close>

definition assign_prop :: "(string \<times> 'a) list \<Rightarrow> string \<Rightarrow> 'a \<Rightarrow> (string \<times> 'a) list" where
  "assign_prop obj k v =
     (if k \<in> fst ` set obj then map (\<lambda>p. if fst p = k then (k, v) else p) obj
      else case array_index k of
             None \<Rightarrow> obj @ [(k, v)]
           | Some i \<Rightarrow> insert_index i (k, v) obj)"

text \<open>\<open>delete obj[k]\<close>.\<close>

definition delete_prop :: "(string \<times> 'a) list \<Rightarrow> string \<Rightarrow> (string \<times> 'a) list" where
  "delete_prop obj k = filter (\<lambda>p. fst p \<noteq> k) obj"

text \<open>
  The object \<open>JSON.parse\<close> builds from the members of an object text, in the order
  of the text: each member is assigned in turn.
\<close>

definition js_object :: "(string \<times> 'a) list \<Rightarrow> (string \<times> 'a) list" where
  "js_object ms = foldl (\<lambda>obj p. assign_prop obj (fst p) (snd p)) [] ms"

section \<open>The browser and the remote store\<close>

text \<open>
  What \<open>getItem\<close> finds under a key of the local storage: nothing, a text that
  \<open>JSON.parse\<close> rejects (the empty text included, which the readers treat alike),
  or a text together with the value it parses to.
\<close>

datatype 'a stored = Absent | Unparsable | Parsed 'a

text \<open>
  An entry of the app files cache: what \<open>getAppFiles\<close> returns, stamped with
  \<open>cachedAt\<close>.
\<close>

record app_files =
  manifest :: jsval
  params :: jsval
  appHtml :: jsval
  syncTime :: jsval

record app_entry = app_files +
  cachedAt :: int

text \<open>
  Requests to the Drive API. A file id that the client read from its cache is carried
  as the value it is; the content of an upload is a text, either given as such or
  made by \<open>JSON.stringify\<close>.
\<close>

datatype payload = RawText string | JsonText json

datatype http_call =
    FilesQuery string
  | CreateFolder string string
  | TrashFile string
  | MultipartUpload jsval string payload
  | MediaUpdate jsval payload
  | MediaGet jsval

record http_request =
  call :: http_call
  authorization :: string

record drive_file =
  file_id :: jsval
  file_name :: string

text \<open>
  A response, through the views its readers take of the body: the \<open>files\<close> array of
  a query, the \<open>id\<close> of a file resource, the body as text, and what \<open>JSON.parse\<close>
  makes of that text (\<open>None\<close> when it throws). The Drive API is taken to answer
  each call with a body of the documented shape.
\<close>

record http_response =
  ok :: bool
  status :: nat
  body_files :: "drive_file list"
  body_id :: string
  body_text :: string
  body_parsed :: "json option"

datatype fetch_result = Rejected | Response http_response

datatype error =
    NotAuthenticated
  | DriveApiError http_response
  | FailedToCreateFile string
  | FailedToUpdateFile
  | FailedToGetFileContent
  | FetchRejected
  | JsonSyntaxError

text \<open>The guest protocol: the messages the host posts to the guest.\<close>

type_synonym window = nat

datatype guest_msg =
    Init jsval jsval jsval
  | SessionSaved bool "error option"

text \<open>
  The world the client runs in. The local storage is split in two: the item under
  \<open>APP_CACHE_KEY\<close>, and the items under every other key (the client uses the keys
  that start with \<open>CACHE_PREFIX\<close>, none of which is \<open>APP_CACHE_KEY\<close>).
  \<open>setItemThrows\<close> tells for which keys \<open>localStorage.setItem\<close> throws (a full or
  disabled storage). The server answers a request knowing the requests made before;
  \<open>fetched\<close> records every request handed to \<open>fetch\<close>. \<open>now\<close> is the clock that
  \<open>Date.now()\<close> reads and \<open>toISOString\<close> the rendering of a time by
  \<open>Date.prototype.toISOString\<close>.
\<close>

record world =
  appFilesItem :: "(string \<times> app_entry) list stored"
  localStorage :: "string \<Rightarrow> json stored"
  setItemThrows :: "string \<Rightarrow> bool"
  sessionStorage :: "string \<Rightarrow> string option"
  now :: int
  toISOString :: "int \<Rightarrow> string"
  server :: "http_request list \<Rightarrow> http_request \<Rightarrow> fetch_result"
  fetched :: "http_request list"
  posted :: "(window \<times> guest_msg) list"

section \<open>DriveClient: cache helpers\<close>

definition CACHE_PREFIX :: string where
  "CACHE_PREFIX = ''tiny_app_cache_''"

definition APP_CACHE_KEY :: string where
  "APP_CACHE_KEY = ''tiny_app_files_cache''"

definition APP_CACHE_MAX :: nat where
  "APP_CACHE_MAX = 4"

definition cacheGet :: "string \<Rightarrow> world \<Rightarrow> json" where
  "cacheGet key w =
     (case localStorage w (CACHE_PREFIX @ key) of
        Parsed v \<Rightarrow> v
      | _ \<Rightarrow> JNull)"

text \<open>
  \<open>JSON.stringify(undefined)\<close> is \<open>undefined\<close>, which \<open>setItem\<close> stores as the
  text \<open>undefined\<close>: no JSON. A throwing \<open>setItem\<close> is caught and logged.
\<close>

definition cacheSet :: "string \<Rightarrow> jsval \<Rightarrow> world \<Rightarrow> world" where
  "cacheSet key v w =
     (if setItemThrows w (CACHE_PREFIX @ key) then w
      else w\<lparr>localStorage := (localStorage w)
               (CACHE_PREFIX @ key := (case v of None \<Rightarrow> Unparsable | Some x \<Rightarrow> Parsed x))\<rparr>)"

definition cacheDelete :: "string \<Rightarrow> world \<Rightarrow> world" where
  "cacheDelete key w = w\<lparr>localStorage := (localStorage w)(CACHE_PREFIX @ key := Absent)\<rparr>"

subsection \<open>App files LRU cache\<close>

definition getAppCache :: "world \<Rightarrow> (string \<times> app_entry) list" where
  "getAppCache w =
     (case appFilesItem w of
        Parsed ms \<Rightarrow> js_object ms
      | _ \<Rightarrow> [])"

definition setAppCache :: "string \<Rightarrow> 'a app_files_scheme \<Rightarrow> world \<Rightarrow> world" where
  "setAppCache appId data w =
     (let cache = assign_prop (getAppCache w) appId
                    \<lparr>manifest = manifest data, params = params data, appHtml = appHtml data,
                     syncTime = syncTime data, cachedAt = now w\<rparr>;
          entries = cache;
          cache = (if length entries > APP_CACHE_MAX
                   then let sorted = sort_key (\<lambda>e. cachedAt (snd e)) entries;
                            toRemove = take (length entries - APP_CACHE_MAX) sorted
                        in fold (\<lambda>e c. delete_prop c (fst e)) toRemove cache
                   else cache)
      in if setItemThrows w APP_CACHE_KEY then w
         else w\<lparr>appFilesItem := Parsed cache\<rparr>)"

definition getAppFromCache :: "string \<Rightarrow> world \<Rightarrow> app_entry option" where
  "getAppFromCache appId w = map_of (getAppCache w) appId"

text \<open>
  The table as \<open>setAppCache\<close> holds it after line 56, before any eviction: the table
  read from the storage with the new entry assigned.
\<close>

definition withEntry :: "string \<Rightarrow> 'a app_files_scheme \<Rightarrow> world \<Rightarrow> (string \<times> app_entry) list" where
  "withEntry appId data w =
     assign_prop (getAppCache w) appId
       \<lparr>manifest = manifest data, params = params data, appHtml = appHtml data,
        syncTime = syncTime data, cachedAt = now w\<rparr>"

section \<open>GoogleAuth: the credential\<close>

definition tokenKey :: string where
  "tokenKey = ''tiny_app_token''"

definition expiryKey :: string where
  "expiryKey = ''tiny_app_token_expiry''"

text \<open>
  \<open>parseInt(s, 10)\<close>: leading white space, a sign, then the longest run of decimal
  digits; \<open>None\<close> is \<open>NaN\<close>.
\<close>

definition is_space :: "char \<Rightarrow> bool" where
  "is_space c \<longleftrightarrow> c \<in> set [CHR 0x09, CHR 0x0A, CHR 0x0B, CHR 0x0C, CHR 0x0D, CHR 0x20]"

definition parseInt :: "string \<Rightarrow> int option" where
  "parseInt s =
     (let t = dropWhile is_space s;
          neg = (t \<noteq> [] \<and> hd t = CHR ''-'');
          u = (if t \<noteq> [] \<and> (hd t = CHR ''-'' \<or> hd t = CHR ''+'') then tl t else t);
          ds = takeWhile is_digit u
      in if ds = [] then None
         else Some (if neg then - int (nat_of_digits ds) else int (nat_of_digits ds)))"

definition signOut :: "world \<Rightarrow> world" where
  "signOut w = w\<lparr>sessionStorage := (sessionStorage w)(tokenKey := None, expiryKey := None)\<rparr>"

text \<open>
  \<open>getToken\<close>: the stored token, \<open>null\<close> (\<open>None\<close>) when the token or its expiry is
  missing or empty, and when the expiry is less than five minutes away, which also
  signs out. A comparison with \<open>NaN\<close> is false, so an expiry that is no number
  never expires.
\<close>

definition getToken :: "world \<Rightarrow> string option \<times> world" where
  "getToken w =
     (case (sessionStorage w tokenKey, sessionStorage w expiryKey) of
        (Some token, Some expiry) \<Rightarrow>
          if token = [] \<or> expiry = [] then (None, w)
          else (case parseInt expiry of
                  Some e \<Rightarrow> if now w > e - 300000 then (None, signOut w) else (Some token, w)
                | None \<Rightarrow> (Some token, w))
      | _ \<Rightarrow> (None, w))"

section \<open>DriveClient: API helpers\<close>

text \<open>
  An asynchronous method is a function of the world that returns a result or the
  error it throws, with the world it leaves. \<open>await\<close> runs the continuation on the
  result and passes an error on. Each method runs to its end before the next one
  starts: the model does not interleave two calls in flight.
\<close>

type_synonym 'a io = "world \<Rightarrow> (error + 'a) \<times> world"

definition resolve :: "'a \<Rightarrow> 'a io" where
  "resolve x w = (Inr x, w)"

definition throw :: "error \<Rightarrow> 'a io" where
  "throw e w = (Inl e, w)"

definition await :: "'a io \<Rightarrow> ('a \<Rightarrow> 'b io) \<Rightarrow> 'b io" where
  "await m f w = (case m w of (Inl e, w') \<Rightarrow> (Inl e, w') | (Inr x, w') \<Rightarrow> f x w')"

text \<open>A synchronous statement that changes the world.\<close>

definition perform :: "(world \<Rightarrow> world) \<Rightarrow> unit io" where
  "perform f w = (Inr (), f w)"

text \<open>The header \<open>`Bearer ${token}`\<close>: a \<open>null\<close> token is rendered as the text \<open>null\<close>.\<close>

definition bearer :: "string option \<Rightarrow> string" where
  "bearer token = ''Bearer '' @ (case token of None \<Rightarrow> ''null'' | Some t \<Rightarrow> t)"

text \<open>\<open>fetch\<close> puts the request on the network; it rejects when the network fails.\<close>

definition fetch :: "http_call \<Rightarrow> string \<Rightarrow> http_response io" where
  "fetch c auth w =
     (let req = \<lparr>call = c, authorization = auth\<rparr>;
          w' = w\<lparr>fetched := fetched w @ [req]\<rparr>
      in case server w (fetched w) req of
           Rejected \<Rightarrow> (Inl FetchRejected, w')
         | Response r \<Rightarrow> (Inr r, w'))"

definition request :: "http_call \<Rightarrow> http_response io" where
  "request c w =
     (case getToken w of
        (None, w') \<Rightarrow> (Inl NotAuthenticated, w')
      | (Some token, w') \<Rightarrow>
          await (fetch c (bearer (Some token)))
            (\<lambda>response. if \<not> ok response then throw (DriveApiError response)
                         else resolve response) w')"

section \<open>DriveClient: file operations\<close>

definition createFile :: "jsval \<Rightarrow> string \<Rightarrow> payload \<Rightarrow> http_response io" where
  "createFile parentId name content w =
     (case getToken w of
        (token, w') \<Rightarrow>
          await (fetch (MultipartUpload parentId name content) (bearer token))
            (\<lambda>response. if \<not> ok response then throw (FailedToCreateFile name)
                         else resolve response) w')"

definition updateFile :: "jsval \<Rightarrow> payload \<Rightarrow> http_response io" where
  "updateFile fileId content w =
     (case getToken w of
        (token, w') \<Rightarrow>
          await (fetch (MediaUpdate fileId content) (bearer token))
            (\<lambda>response. if \<not> ok response then throw FailedToUpdateFile
                         else resolve response) w')"

definition getFileContent :: "jsval \<Rightarrow> http_response io" where
  "getFileContent fileId w =
     (case getToken w of
        (token, w') \<Rightarrow>
          await (fetch (MediaGet fileId) (bearer token))
            (\<lambda>response. if \<not> ok response then throw FailedToGetFileContent
                         else resolve response) w')"

definition quote :: string where
  "quote = [CHR 0x27]"

definition findFile :: "string \<Rightarrow> string \<Rightarrow> drive_file option io" where
  "findFile parentId name =
     (let cacheKey = ''fileId_'' @ parentId @ ''_'' @ name in
      (\<lambda>w.
        let cachedId = cacheGet cacheKey w in
        if truthy (Some cachedId)
        then resolve (Some \<lparr>file_id = Some cachedId, file_name = name\<rparr>) w
        else await
               (request (FilesQuery (quote @ parentId @ quote @ '' in parents and name=''
                                       @ quote @ name @ quote @ '' and trashed=false'')))
               (\<lambda>result.
                  case body_files result of
                    [] \<Rightarrow> resolve None
                  | file # _ \<Rightarrow>
                      await (perform (cacheSet cacheKey (file_id file)))
                        (\<lambda>_. resolve (Some file))) w))"

section \<open>DriveClient: app files (cached)\<close>

text \<open>
  \<open>Promise.all\<close> over three lookups. The model runs them one after the other, each
  to its end whether or not an earlier one failed (a rejected lookup does not stop
  the others in flight), and reports the first failure in the order written. In the
  browser the three lookups start together and the first rejection in time is the one
  reported: the order of the requests and the error chosen may differ from the
  model's. Only \<open>getAppFiles\<close> on a cache miss or a forced refresh runs this.
\<close>

definition promise_all3 :: "'a io \<Rightarrow> 'b io \<Rightarrow> 'c io \<Rightarrow> ('a \<times> 'b \<times> 'c) io" where
  "promise_all3 a b c w =
     (case a w of (ra, wa) \<Rightarrow>
      case b wa of (rb, wb) \<Rightarrow>
      case c wb of (rc, wc) \<Rightarrow>
        (case ra of
           Inl e \<Rightarrow> Inl e
         | Inr x \<Rightarrow>
             (case rb of
                Inl e \<Rightarrow> Inl e
              | Inr y \<Rightarrow> (case rc of Inl e \<Rightarrow> Inl e | Inr z \<Rightarrow> Inr (x, y, z))),
         wc))"

text \<open>\<open>findFile(appId, name).then(f => f ? this.getFileContent(f.id) : null)\<close>\<close>

definition fileContentOrNull :: "string \<Rightarrow> string \<Rightarrow> http_response option io" where
  "fileContentOrNull appId name =
     await (findFile appId name)
       (\<lambda>f. case f of
               None \<Rightarrow> resolve None
             | Some file \<Rightarrow> await (getFileContent (file_id file)) (\<lambda>r. resolve (Some r)))"

text \<open>\<open>x ? JSON.parse(x) : null\<close> on a text or \<open>null\<close>.\<close>

definition parseOrNull :: "http_response option \<Rightarrow> json io" where
  "parseOrNull x =
     (case x of
        None \<Rightarrow> resolve JNull
      | Some r \<Rightarrow>
          if body_text r = [] then resolve JNull
          else (case body_parsed r of
                  None \<Rightarrow> throw JsonSyntaxError
                | Some v \<Rightarrow> resolve v))"

definition getAppFiles :: "string \<Rightarrow> bool \<Rightarrow> app_files io" where
  "getAppFiles appId forceRefresh w =
     (case (if \<not> forceRefresh then getAppFromCache appId w else None) of
        Some cached \<Rightarrow>
          resolve \<lparr>manifest = manifest cached, params = params cached,
                   appHtml = appHtml cached, syncTime = Some (JNum (cachedAt cached))\<rparr> w
      | None \<Rightarrow>
          await (promise_all3 (fileContentOrNull appId ''manifest.json'')
                              (fileContentOrNull appId ''params.json'')
                              (fileContentOrNull appId ''app.html''))
            (\<lambda>(m, p, h).
               await (parseOrNull m) (\<lambda>manifest'.
               await (parseOrNull p) (\<lambda>params'.
               (\<lambda>w1.
                  let result = \<lparr>manifest = Some manifest', params = Some params',
                                 appHtml = (case h of None \<Rightarrow> Some JNull
                                            | Some r \<Rightarrow> Some (JStr (body_text r))),
                                 syncTime = Some (JNum (now w1))\<rparr>
                  in resolve result (setAppCache appId result w1))))) w)"

definition saveAppHtml :: "string \<Rightarrow> string \<Rightarrow> http_response io" where
  "saveAppHtml appId content =
     await (findFile appId ''app.html'') (\<lambda>file.
     await (case file of
              Some f \<Rightarrow> updateFile (file_id f) (RawText content)
            | None \<Rightarrow> createFile (Some (JStr appId)) ''app.html'' (RawText content)) (\<lambda>result.
     (\<lambda>w.
        case getAppFromCache appId w of
          Some cached \<Rightarrow>
            resolve result (setAppCache appId (cached\<lparr>appHtml := Some (JStr content)\<rparr>) w)
        | None \<Rightarrow> resolve result w)))"

text \<open>No caching - just save to Drive.\<close>

definition saveManifest :: "string \<Rightarrow> json \<Rightarrow> http_response io" where
  "saveManifest appId manifest' =
     await (findFile appId ''manifest.json'') (\<lambda>file.
       let content = JsonText manifest' in
       case file of
         Some f \<Rightarrow> updateFile (file_id f) content
       | None \<Rightarrow> createFile (Some (JStr appId)) ''manifest.json'' content)"

definition saveParams :: "string \<Rightarrow> json \<Rightarrow> http_response io" where
  "saveParams appId params' =
     await (findFile appId ''params.json'') (\<lambda>file.
       let content = JsonText params' in
       case file of
         Some f \<Rightarrow> updateFile (file_id f) content
       | None \<Rightarrow> createFile (Some (JStr appId)) ''params.json'' content)"

definition deleteApp :: "string \<Rightarrow> http_response io" where
  "deleteApp appId =
     await (perform (cacheDelete (''appFiles_'' @ appId))) (\<lambda>_.
     await (perform (cacheDelete (''sessionsFolderId_'' @ appId))) (\<lambda>_.
     await (perform (cacheDelete (''sessions_'' @ appId))) (\<lambda>_.
     await (perform (cacheDelete (''fileId_'' @ appId @ ''_manifest.json''))) (\<lambda>_.
     await (perform (cacheDelete (''fileId_'' @ appId @ ''_app.html''))) (\<lambda>_.
     await (perform (cacheDelete (''fileId_'' @ appId @ ''_params.json''))) (\<lambda>_.
     request (TrashFile appId)))))))"

section \<open>DriveClient: session operations (cached)\<close>

definition getSessionsFolderId :: "string \<Rightarrow> jsval io" where
  "getSessionsFolderId appId w =
     (let cached = cacheGet (''sessionsFolderId_'' @ appId) w in
      if truthy (Some cached) then resolve (Some cached) w
      else await (findFile appId ''sessions'')
             (\<lambda>folder.
                case folder of
                  None \<Rightarrow>
                    await (request (CreateFolder ''sessions'' appId)) (\<lambda>newFolder.
                    await (perform (cacheSet (''sessionsFolderId_'' @ appId)
                                      (Some (JStr (body_id newFolder))))) (\<lambda>_.
                    resolve (Some (JStr (body_id newFolder)))))
                | Some f \<Rightarrow>
                    await (perform (cacheSet (''sessionsFolderId_'' @ appId) (file_id f))) (\<lambda>_.
                    resolve (file_id f))) w)"

definition getSession :: "string \<Rightarrow> bool \<Rightarrow> json io" where
  "getSession sessionId forceRefresh w =
     (let cacheKey = ''session_'' @ sessionId;
          cached = cacheGet cacheKey w
      in if \<not> forceRefresh \<and> truthy (Some cached)
         then resolve (JObj (set_prop (own_props (get_prop (Some cached) ''data''))
                               ''syncTime'' (get_prop (Some cached) ''syncTime''))) w
         else await (getFileContent (Some (JStr sessionId)))
                (\<lambda>content.
                   case body_parsed content of
                     None \<Rightarrow> throw JsonSyntaxError
                   | Some data \<Rightarrow>
                       (\<lambda>w1.
                          let syncTime' = now w1 in
                          resolve (JObj (set_prop (own_props (Some data))
                                           ''syncTime'' (Some (JNum syncTime'))))
                            (cacheSet cacheKey
                               (Some (JObj [(''data'', data), (''syncTime'', JNum syncTime')])) w1))) w)"

definition saveSession :: "string \<Rightarrow> json \<Rightarrow> http_response io" where
  "saveSession sessionId data =
     await (updateFile (Some (JStr sessionId)) (JsonText data)) (\<lambda>result.
     (\<lambda>w.
        resolve result
          (cacheSet (''session_'' @ sessionId)
             (Some (JObj [(''data'', data), (''syncTime'', JNum (now w))])) w)))"

record new_session =
  new_id :: string
  new_name :: string
  new_data :: json

definition createSession :: "string \<Rightarrow> string \<Rightarrow> new_session io" where
  "createSession appId name =
     await (getSessionsFolderId appId) (\<lambda>sessionsFolderId.
     (\<lambda>w.
        let sessionData = JObj [(''name'', JStr name),
                                (''createdAt'', JStr (toISOString w (now w))),
                                (''data'', JObj [])]
        in await (createFile sessionsFolderId (name @ ''.json'') (JsonText sessionData)) (\<lambda>file.
           await (perform (cacheSet (''session_'' @ body_id file) (Some sessionData))) (\<lambda>_.
           await (perform (cacheDelete (''sessions_'' @ appId))) (\<lambda>_.
           resolve \<lparr>new_id = body_id file, new_name = name, new_data = sessionData\<rparr>))) w))"

section \<open>AppRunner: the host side of the guest protocol\<close>

text \<open>
  The fields of the host that its message handlers read and write. The current
  session is \<open>null\<close> or an object, of which the handlers use \<open>id\<close>, \<open>name\<close>,
  \<open>createdAt\<close> and \<open>data\<close>. The iframe element is \<open>null\<close> or an element, whose
  \<open>contentWindow\<close> is \<open>null\<close> or the window of the guest.
\<close>

record session =
  session_id :: string
  name :: jsval
  createdAt :: jsval
  data :: jsval

record iframe_element =
  contentWindow :: "window option"

record app_runner =
  manifest :: jsval
  params :: jsval
  currentSession :: "session option"
  iframe :: "iframe_element option"

record message_event =
  source :: "window option"
  event_data :: jsval

type_synonym host = "app_runner \<times> world"

fun sendMessageToIframe :: "guest_msg \<Rightarrow> host \<Rightarrow> host" where
  "sendMessageToIframe message (h, w) =
       (case iframe h of
          None \<Rightarrow> (h, w)
        | Some f \<Rightarrow>
            (case contentWindow f of
               None \<Rightarrow> (h, w)
             | Some cw \<Rightarrow> (h, w\<lparr>posted := posted w @ [(cw, message)]\<rparr>)))"

fun sendInitToIframe :: "host \<Rightarrow> host" where
  "sendInitToIframe (h, w) =
       (case iframe h of
          None \<Rightarrow> (h, w)
        | Some f \<Rightarrow>
            (case contentWindow f of
               None \<Rightarrow> (h, w)
             | Some cw \<Rightarrow>
                 let d = (case currentSession h of None \<Rightarrow> None | Some s \<Rightarrow> data s) in
                 (h, w\<lparr>posted := posted w @
                         [(cw, Init (app_runner.manifest h) (app_runner.params h)
                                 (if truthy d then d else Some (JObj [])))]\<rparr>)))"

text \<open>
  The object literal \<open>{name: .., createdAt: .., data: ..}\<close>, as \<open>JSON.stringify\<close>
  and the cache see it.
\<close>

definition object_literal :: "(string \<times> jsval) list \<Rightarrow> json" where
  "object_literal ms = JObj (foldl (\<lambda>ps m. set_prop ps (fst m) (snd m)) [] ms)"

fun saveCurrentSession :: "host \<Rightarrow> host" where
  "saveCurrentSession (h, w) =
       (case currentSession h of
          None \<Rightarrow> (h, w)
        | Some s \<Rightarrow>
            (case saveSession (session_id s)
                    (object_literal [(''name'', name s), (''createdAt'', createdAt s),
                                     (''data'', data s)]) w of
               (Inr _, w') \<Rightarrow> sendMessageToIframe (SessionSaved True None) (h, w')
             | (Inl err, w') \<Rightarrow> sendMessageToIframe (SessionSaved False (Some err)) (h, w')))"

fun handleSessionUpdate :: "jsval \<Rightarrow> host \<Rightarrow> host" where
  "handleSessionUpdate d (h, w) =
       (case currentSession h of
          None \<Rightarrow> (h, w)
        | Some s \<Rightarrow> saveCurrentSession (h\<lparr>currentSession := Some (s\<lparr>data := d\<rparr>)\<rparr>, w))"

fun handleMessage :: "message_event \<Rightarrow> host \<Rightarrow> host" where
  "handleMessage event (h, w) =
       (case iframe h of
          None \<Rightarrow> (h, w)
        | Some f \<Rightarrow>
            if source event \<noteq> contentWindow f then (h, w)
            else
              let msg = (if truthy (event_data event) then event_data event else Some (JObj []));
                  type = get_prop msg ''type'';
                  d = get_prop msg ''data''
              in if type = Some (JStr ''ready'') then sendInitToIframe (h, w)
                 else if type = Some (JStr ''update-session'') then handleSessionUpdate d (h, w)
                 else (h, w))"

text \<open>
  The \<open>session\<close> field of an \<open>init\<close> message, \<open>this.currentSession?.data || {}\<close>,
  spelled out: the data of the current session when there is a session and its data
  is truthy, and an empty object otherwise.
\<close>

definition session_for_init :: "app_runner \<Rightarrow> jsval" where
  "session_for_init h =
     (case currentSession h of
        None \<Rightarrow> Some (JObj [])
      | Some s \<Rightarrow> if truthy (data s) then data s else Some (JObj []))"

section \<open>What a call leaves of the caches\<close>

text \<open>
  Two worlds agree on the caches except at the keys \<open>K\<close> of the local storage:
  the other items, the app files table, the keys the storage rejects and the clock
  are the same.
\<close>

definition same_cache_except :: "string set \<Rightarrow> world \<Rightarrow> world \<Rightarrow> bool" where
  "same_cache_except K w w' \<longleftrightarrow>
     (\<forall>k. k \<notin> K \<longrightarrow> localStorage w' k = localStorage w k)
     \<and> appFilesItem w' = appFilesItem w
     \<and> setItemThrows w' = setItemThrows w
     \<and> now w' = now w"

section \<open>Concrete worlds\<close>

text \<open>
  A browser with empty storages that accept every write, a signed-in user whose
  token expires far ahead, and a Drive that answers every request with success.
\<close>

definition ok_response :: http_response where
  "ok_response = \<lparr>ok = True, status = 200, body_files = [], body_id = ''file1'',
                   body_text = [], body_parsed = None\<rparr>"

definition signed_in :: "string \<Rightarrow> string option" where
  "signed_in = (\<lambda>k. if k = tokenKey then Some ''token''
                    else if k = expiryKey then Some ''9000000'' else None)"

definition browser :: world where
  "browser = \<lparr>appFilesItem = Absent, localStorage = (\<lambda>k. Absent),
               setItemThrows = (\<lambda>k. False), sessionStorage = signed_in,
               now = 1000, toISOString = (\<lambda>t. ''1970-01-01T00:00:01.000Z''),
               server = (\<lambda>h r. Response ok_response), fetched = [], posted = []\<rparr>"

text \<open>The same browser with nobody signed in, and a Drive that refuses with 401.\<close>

definition signed_out_browser :: world where
  "signed_out_browser =
     browser\<lparr>sessionStorage := (\<lambda>k. None),
             server := (\<lambda>h r. Response (ok_response\<lparr>ok := False, status := 401\<rparr>))\<rparr>"

text \<open>A bundle, and the table after caching it for A, B, C and D at the times 1 to 4.\<close>

definition demo_bundle :: app_files where
  "demo_bundle = \<lparr>app_files.manifest = Some (JObj [(''name'', JStr ''demo'')]), params = Some (JObj []),
              appHtml = Some (JStr ''<p>old</p>''), syncTime = Some (JNum 0)\<rparr>"

definition four_apps :: world where
  "four_apps =
     setAppCache ''D'' demo_bundle
       ((setAppCache ''C'' demo_bundle
          ((setAppCache ''B'' demo_bundle
             ((setAppCache ''A'' demo_bundle (browser\<lparr>now := 1\<rparr>))\<lparr>now := 2\<rparr>))\<lparr>now := 3\<rparr>))\<lparr>now := 4\<rparr>)"

text \<open>A browser that holds the bundle of one app and one session of that app.\<close>

definition old_session :: json where
  "old_session = JObj [(''name'', JStr ''old''), (''createdAt'', JStr ''2024''),
                       (''data'', JObj [(''count'', JNum 1)])]"

definition new_session_value :: "(string \<times> json) list" where
  "new_session_value = [(''name'', JStr ''new''), (''createdAt'', JStr ''2024''),
                        (''data'', JObj [(''count'', JNum 2)])]"

definition one_app :: world where
  "one_app =
     cacheSet ''session_s1'' (Some (JObj [(''data'', old_session), (''syncTime'', JNum 7)]))
       (setAppCache ''app1'' demo_bundle browser)"

text \<open>The same, with a local storage that rejects every write.\<close>

definition full_storage :: world where
  "full_storage = one_app\<lparr>setItemThrows := (\<lambda>k. True)\<rparr>"

text \<open>
  A Drive that finds \<open>app.html\<close> under the id \<open>f1\<close> and refuses every other
  request with 500.
\<close>

definition failing_writes :: world where
  "failing_writes =
     browser\<lparr>server := (\<lambda>h r. case call r of
                  FilesQuery q \<Rightarrow>
                    Response (ok_response\<lparr>body_files :=
                                [\<lparr>file_id = Some (JStr ''f1''), file_name = ''app.html''\<rparr>]\<rparr>)
                | _ \<Rightarrow> Response (ok_response\<lparr>ok := False, status := 500\<rparr>))\<rparr>"

text \<open>A host with a guest in window 1, with and without a session.\<close>

definition guest_frame :: iframe_element where
  "guest_frame = \<lparr>contentWindow = Some 1\<rparr>"

definition host_without_session :: app_runner where
  "host_without_session =
     \<lparr>manifest = Some (JObj [(''name'', JStr ''demo'')]), params = Some (JObj []),
      currentSession = None, iframe = Some guest_frame\<rparr>"

definition host_with_null_data :: app_runner where
  "host_with_null_data =
     host_without_session
       \<lparr>currentSession := Some \<lparr>session_id = ''s1'', name = Some (JStr ''old''),
                                 createdAt = Some (JStr ''2024''), data = Some JNull\<rparr>\<rparr>"

definition ready_event :: message_event where
  "ready_event = \<lparr>source = Some 1, event_data = Some (JObj [(''type'', JStr ''ready'')])\<rparr>"

definition update_event :: message_event where
  "update_event =
     \<lparr>source = Some 1,
      event_data = Some (JObj [(''type'', JStr ''update-session''),
                               (''data'', JObj [(''count'', JNum 2)])])\<rparr>"




section \<open>Unfolding the definitions\<close>

lemma not_index [simp]: "array_index ''A'' = None" "array_index ''B'' = None" "array_index ''C'' = None"
  "array_index ''D'' = None" "array_index ''E'' = None" "array_index ''app1'' = None"
  by (simp_all add: array_index_def is_digit_def)

lemmas world_defs = browser_def four_apps_def one_app_def full_storage_def failing_writes_def
  signed_out_browser_def signed_in_def ok_response_def demo_bundle_def old_session_def
  new_session_value_def

lemmas cache_defs = setAppCache_def getAppCache_def getAppFromCache_def js_object_def assign_prop_def
  delete_prop_def APP_CACHE_MAX_def APP_CACHE_KEY_def CACHE_PREFIX_def cacheGet_def cacheSet_def
  cacheDelete_def withEntry_def

lemmas io_defs = resolve_def throw_def await_def perform_def

lemmas auth_defs = getToken_def signOut_def tokenKey_def expiryKey_def parseInt_def is_space_def
  is_digit_def nat_of_digits_def bearer_def

lemmas client_defs = fetch_def request_def createFile_def updateFile_def getFileContent_def
  findFile_def quote_def

section \<open>Tables: keys stay distinct\<close>

lemma keys_insert_index:
  "fst ` set (insert_index i kv ps) = insert (fst kv) (fst ` set ps)"
  by (induction ps) (auto split: option.splits)

lemma distinct_insert_index:
  "distinct (map fst ps) \<Longrightarrow> fst kv \<notin> fst ` set ps \<Longrightarrow> distinct (map fst (insert_index i kv ps))"
proof (induction ps)
  case Nil
  then show ?case by simp
next
  case (Cons p ps)
  have "fst p \<notin> fst ` set (insert_index i kv ps)"
    using Cons.prems by (auto simp: keys_insert_index)
  with Cons show ?case
    by (auto split: option.splits)
qed

lemma keys_map_assign: "map fst (map (\<lambda>p. if fst p = k then (k, v) else p) obj) = map fst obj"
  by (induction obj) auto

lemma keys_map_assign_set:
  "fst ` set (map (\<lambda>p. if fst p = k then (k, v) else p) obj) = fst ` set obj"
  by (induction obj) auto

lemma keys_assign_prop: "fst ` set (assign_prop obj k v) = insert k (fst ` set obj)"
proof (cases "k \<in> fst ` set obj")
  case True
  then show ?thesis
    unfolding assign_prop_def by (simp only: if_True keys_map_assign_set) auto
next
  case False
  then show ?thesis
    by (simp add: assign_prop_def keys_insert_index split: option.splits)
qed

lemma distinct_assign_prop:
  assumes "distinct (map fst obj)"
  shows "distinct (map fst (assign_prop obj k v))"
proof (cases "k \<in> fst ` set obj")
  case True
  with assms show ?thesis
    by (simp add: assign_prop_def keys_map_assign del: map_map)
next
  case False
  with assms show ?thesis
    by (auto simp: assign_prop_def distinct_insert_index split: option.splits)
qed

lemma map_of_insert_index:
  "fst kv \<notin> fst ` set ps \<Longrightarrow> map_of (insert_index i kv ps) k = ((map_of ps)(fst kv \<mapsto> snd kv)) k"
proof (induction ps)
  case Nil
  then show ?case by (cases kv) simp
next
  case (Cons p ps)
  then show ?case
    by (cases kv; cases p) (auto split: option.splits)
qed

lemma map_of_map_assign_other:
  "x \<noteq> k \<Longrightarrow> map_of (map (\<lambda>p. if fst p = k then (k, v) else p) obj) x = map_of obj x"
  by (induction obj) auto

lemma map_of_map_assign_same:
  "k \<in> fst ` set obj \<Longrightarrow> map_of (map (\<lambda>p. if fst p = k then (k, v) else p) obj) k = Some v"
  by (induction obj) auto

lemma map_of_assign_prop:
  "map_of (assign_prop obj k v) = (map_of obj)(k \<mapsto> v)"
proof (rule ext, cases "k \<in> fst ` set obj")
  fix x
  case True
  then show "map_of (assign_prop obj k v) x = ((map_of obj)(k \<mapsto> v)) x"
    by (simp add: assign_prop_def map_of_map_assign_other map_of_map_assign_same)
next
  fix x
  case False
  then have "map_of obj k = None"
    by (simp add: map_of_eq_None_iff)
  with False show "map_of (assign_prop obj k v) x = ((map_of obj)(k \<mapsto> v)) x"
    by (simp add: assign_prop_def map_of_insert_index map_add_def split: option.splits)
qed

lemma distinct_foldl_assign:
  "distinct (map fst acc) \<Longrightarrow>
   distinct (map fst (foldl (\<lambda>obj p. assign_prop obj (fst p) (snd p)) acc ms))"
  by (induction ms arbitrary: acc) (simp_all add: distinct_assign_prop)

lemma distinct_js_object: "distinct (map fst (js_object ms))"
  by (simp add: js_object_def distinct_foldl_assign)

lemma distinct_getAppCache: "distinct (map fst (getAppCache w))"
  by (simp add: getAppCache_def distinct_js_object split: stored.splits)

lemma map_of_foldl_assign:
  "map_of (foldl (\<lambda>obj p. assign_prop obj (fst p) (snd p)) acc ms) x
     = (map_of acc ++ map_of (rev ms)) x"
proof (induction ms arbitrary: acc)
  case Nil
  then show ?case by simp
next
  case (Cons m ms)
  show ?case
    by (cases m) (simp add: Cons.IH map_of_assign_prop map_add_def split: option.splits)
qed

lemma map_of_js_object: "map_of (js_object ms) = map_of (rev ms)"
  by (rule ext) (simp add: js_object_def map_of_foldl_assign)

lemma js_object_same:
  assumes "distinct (map fst ms)"
  shows "set (js_object ms) = set ms" and "length (js_object ms) = length ms"
proof -
  have d: "distinct (map fst (rev ms))"
    using assms by (simp add: rev_map [symmetric])
  have "map_of (js_object ms) = map_of (rev ms)"
    by (rule map_of_js_object)
  then have "set (js_object ms) = set (rev ms)"
    using map_of_inject_set [OF distinct_js_object d] by blast
  then show s: "set (js_object ms) = set ms" by simp
  have "distinct (js_object ms)" "distinct ms"
    using distinct_js_object [of ms] assms by (simp_all add: distinct_map)
  then have "length (js_object ms) = card (set (js_object ms))" "length ms = card (set ms)"
    by (simp_all add: distinct_card)
  with s show "length (js_object ms) = length ms" by simp
qed

section \<open>Eviction\<close>

lemma fold_delete_prop:
  "fold (\<lambda>e c. delete_prop c (fst e)) rs c = filter (\<lambda>p. fst p \<notin> fst ` set rs) c"
proof (induction rs arbitrary: c)
  case Nil
  then show ?case by simp
next
  case (Cons r rs)
  have "fold (\<lambda>e c. delete_prop c (fst e)) (r # rs) c
          = filter (\<lambda>p. fst p \<notin> fst ` set rs) (delete_prop c (fst r))"
    by (simp only: fold_simps Cons.IH)
  also have "\<dots> = filter (\<lambda>p. fst p \<notin> fst ` set (r # rs)) c"
    unfolding delete_prop_def filter_filter by (rule filter_cong) auto
  finally show ?case .
qed




section \<open>Writing the app files table\<close>

lemma setAppCache_stored:
  assumes "\<not> setItemThrows w APP_CACHE_KEY"
  shows "appFilesItem (setAppCache appId files w) =
           Parsed (if length (withEntry appId files w) > APP_CACHE_MAX
                   then filter (\<lambda>p. fst p \<notin> fst ` set (take (length (withEntry appId files w) - APP_CACHE_MAX)
                                       (sort_key (\<lambda>e. cachedAt (snd e)) (withEntry appId files w))))
                          (withEntry appId files w)
                   else withEntry appId files w)"
  using assms by (simp add: setAppCache_def withEntry_def Let_def fold_delete_prop)

lemma distinct_withEntry: "distinct (map fst (withEntry appId files w))"
  by (simp add: withEntry_def distinct_assign_prop distinct_getAppCache)



section \<open>Frames of the client calls\<close>

lemma sce_refl: "same_cache_except K w w"
  by (simp add: same_cache_except_def)

lemma sce_trans:
  "same_cache_except K w w1 \<Longrightarrow> same_cache_except K w1 w2 \<Longrightarrow> same_cache_except K w w2"
  by (simp add: same_cache_except_def)

lemma sce_getToken: "same_cache_except K w (snd (getToken w))"
  by (simp add: getToken_def signOut_def same_cache_except_def split: option.splits)

lemma sce_fetch: "same_cache_except K w (snd (fetch c a w))"
  by (simp add: fetch_def same_cache_except_def Let_def split: fetch_result.splits)

lemma sce_resolve: "same_cache_except K w (snd (resolve x w))"
  by (simp add: resolve_def sce_refl)

lemma sce_throw: "same_cache_except K w (snd (throw e w))"
  by (simp add: throw_def sce_refl)

lemma sce_await:
  assumes "same_cache_except K w (snd (m w))"
      and "\<And>x w1. same_cache_except K w1 (snd (f x w1))"
  shows "same_cache_except K w (snd (await m f w))"
proof (cases "m w")
  case (Pair r w1)
  show ?thesis
  proof (cases r)
    case (Inl e)
    with Pair assms(1) show ?thesis by (simp add: await_def)
  next
    case (Inr x)
    have "same_cache_except K w1 (snd (f x w1))" by (rule assms(2))
    with Pair Inr assms(1) show ?thesis
      by (auto simp: await_def intro: sce_trans)
  qed
qed

lemma sce_request: "same_cache_except K w (snd (request c w))"
proof (cases "getToken w")
  case (Pair t w1)
  then have s: "same_cache_except K w w1"
    using sce_getToken [of K w] by simp
  show ?thesis
  proof (cases t)
    case None
    with Pair s show ?thesis by (simp add: request_def)
  next
    case (Some token)
    have "same_cache_except K w1
            (snd (await (fetch c (bearer (Some token)))
                   (\<lambda>response. if \<not> ok response then throw (DriveApiError response)
                                else resolve response) w1))"
      by (rule sce_await) (simp_all add: sce_fetch sce_resolve sce_throw)
    with Pair Some s show ?thesis
      by (auto simp: request_def intro: sce_trans)
  qed
qed

lemma sce_updateFile: "same_cache_except K w (snd (updateFile f c w))"
proof (cases "getToken w")
  case (Pair t w1)
  then have s: "same_cache_except K w w1"
    using sce_getToken [of K w] by simp
  have "same_cache_except K w1
          (snd (await (fetch (MediaUpdate f c) (bearer t))
                 (\<lambda>response. if \<not> ok response then throw FailedToUpdateFile
                              else resolve response) w1))"
    by (rule sce_await) (simp_all add: sce_fetch sce_resolve sce_throw)
  with Pair s show ?thesis
    by (auto simp: updateFile_def intro: sce_trans)
qed

lemma sce_createFile: "same_cache_except K w (snd (createFile p n c w))"
proof (cases "getToken w")
  case (Pair t w1)
  then have s: "same_cache_except K w w1"
    using sce_getToken [of K w] by simp
  have "same_cache_except K w1
          (snd (await (fetch (MultipartUpload p n c) (bearer t))
                 (\<lambda>response. if \<not> ok response then throw (FailedToCreateFile n)
                              else resolve response) w1))"
    by (rule sce_await) (simp_all add: sce_fetch sce_resolve sce_throw)
  with Pair s show ?thesis
    by (auto simp: createFile_def intro: sce_trans)
qed

lemma sce_cacheSet: "same_cache_except {CACHE_PREFIX @ key} w (cacheSet key v w)"
  by (simp add: cacheSet_def same_cache_except_def)

lemma sce_find_body:
  "same_cache_except {CACHE_PREFIX @ key} w
     (snd (if truthy (Some (cacheGet key w))
           then resolve (Some \<lparr>file_id = Some (cacheGet key w), file_name = n\<rparr>) w
           else await (request (FilesQuery q))
                  (\<lambda>result.
                     case body_files result of
                       [] \<Rightarrow> resolve None
                     | file # _ \<Rightarrow>
                         await (perform (cacheSet key (file_id file)))
                           (\<lambda>_. resolve (Some file))) w))"
proof (cases "truthy (Some (cacheGet key w))")
  case True
  then show ?thesis
    by (simp add: sce_resolve)
next
  case False
  have "same_cache_except {CACHE_PREFIX @ key} w
          (snd (await (request (FilesQuery q))
                  (\<lambda>result.
                     case body_files result of
                       [] \<Rightarrow> resolve None
                     | file # _ \<Rightarrow>
                         await (perform (cacheSet key (file_id file)))
                           (\<lambda>_. resolve (Some file))) w))"
  proof (rule sce_await)
    show "same_cache_except {CACHE_PREFIX @ key} w (snd (request (FilesQuery q) w))"
      by (rule sce_request)
  next
    fix x w1
    show "same_cache_except {CACHE_PREFIX @ key} w1
            (snd ((case body_files x of
                    [] \<Rightarrow> resolve None
                  | file # _ \<Rightarrow>
                      await (perform (cacheSet key (file_id file)))
                        (\<lambda>_. resolve (Some file))) w1))"
      using sce_cacheSet [of key w1]
      by (simp add: io_defs sce_refl split: list.splits)
  qed
  with False show ?thesis
    by simp
qed

lemma sce_findFile:
  "same_cache_except {CACHE_PREFIX @ ''fileId_'' @ p @ ''_'' @ n} w (snd (findFile p n w))"
  unfolding findFile_def Let_def by (rule sce_find_body)

lemma sce_save_file:
  "same_cache_except K w
     (snd ((case found of
              Some f \<Rightarrow> updateFile (file_id f) content
            | None \<Rightarrow> createFile parent n content) w))"
  by (simp add: sce_updateFile sce_createFile split: option.splits)

lemma sce_saveManifest:
  "same_cache_except {CACHE_PREFIX @ ''fileId_'' @ appId @ ''_'' @ ''manifest.json''} w
     (snd (saveManifest appId m w))"
  unfolding saveManifest_def Let_def
  by (rule sce_await) (simp_all only: sce_findFile sce_save_file)

lemma sce_saveParams:
  "same_cache_except {CACHE_PREFIX @ ''fileId_'' @ appId @ ''_'' @ ''params.json''} w
     (snd (saveParams appId p w))"
  unfolding saveParams_def Let_def
  by (rule sce_await) (simp_all only: sce_findFile sce_save_file)

lemma setAppCache_subset:
  assumes "\<not> setItemThrows w APP_CACHE_KEY"
  shows "set (getAppCache (setAppCache appId files w)) \<subseteq> set (withEntry appId files w)"
proof -
  let ?b = "withEntry appId files w"
  let ?m = "length ?b - APP_CACHE_MAX"
  let ?s = "sort_key (\<lambda>e. cachedAt (snd e)) ?b"
  let ?c = "filter (\<lambda>p. fst p \<notin> fst ` set (take ?m ?s)) ?b"
  have db: "distinct (map fst ?b)"
    by (rule distinct_withEntry)
  then have dc: "distinct (map fst ?c)"
    by (simp add: distinct_map_filter)
  show ?thesis
  proof (cases "length ?b > APP_CACHE_MAX")
    case True
    then have "getAppCache (setAppCache appId files w) = js_object ?c"
      by (simp add: getAppCache_def setAppCache_stored [OF assms])
    then show ?thesis
      by (simp add: js_object_same(1) [OF dc])
  next
    case False
    then have "getAppCache (setAppCache appId files w) = js_object ?b"
      by (simp add: getAppCache_def setAppCache_stored [OF assms])
    then show ?thesis
      by (simp add: js_object_same(1) [OF db])
  qed
qed

lemma setAppCache_lookup:
  assumes "\<not> setItemThrows w APP_CACHE_KEY"
      and "getAppFromCache appId (setAppCache appId files w) = Some e"
  shows "e = \<lparr>app_files.manifest = app_files.manifest files, app_files.params = app_files.params files,
              appHtml = appHtml files, syncTime = syncTime files, cachedAt = now w\<rparr>"
proof -
  have "(appId, e) \<in> set (getAppCache (setAppCache appId files w))"
    using assms(2) by (simp add: getAppFromCache_def map_of_SomeD)
  then have "(appId, e) \<in> set (withEntry appId files w)"
    using setAppCache_subset [OF assms(1)] by blast
  then have "map_of (withEntry appId files w) appId = Some e"
    by (intro map_of_is_SomeI distinct_withEntry)
  then show ?thesis
    by (simp add: withEntry_def map_of_assign_prop)
qed

lemma deleteApp_frame:
  "appFilesItem (snd (deleteApp appId w)) = appFilesItem w
   \<and> localStorage (snd (deleteApp appId w)) (CACHE_PREFIX @ ''session_'' @ sid)
       = localStorage w (CACHE_PREFIX @ ''session_'' @ sid)"
proof -
  let ?w6 = "cacheDelete (''fileId_'' @ appId @ ''_params.json'')
              (cacheDelete (''fileId_'' @ appId @ ''_app.html'')
                (cacheDelete (''fileId_'' @ appId @ ''_manifest.json'')
                  (cacheDelete (''sessions_'' @ appId)
                    (cacheDelete (''sessionsFolderId_'' @ appId)
                      (cacheDelete (''appFiles_'' @ appId) w)))))"
  have "snd (deleteApp appId w) = snd (request (TrashFile appId) ?w6)"
    by (simp add: deleteApp_def io_defs)
  moreover have "same_cache_except {} ?w6 (snd (request (TrashFile appId) ?w6))"
    by (rule sce_request)
  moreover have "appFilesItem ?w6 = appFilesItem w"
    by (simp add: cacheDelete_def)
  moreover have "localStorage ?w6 (CACHE_PREFIX @ ''session_'' @ sid)
                   = localStorage w (CACHE_PREFIX @ ''session_'' @ sid)"
    by (simp add: cacheDelete_def CACHE_PREFIX_def)
  ultimately show ?thesis
    by (simp add: same_cache_except_def)
qed

lemma getAppFiles_cached:
  "getAppFromCache appId w = Some cached \<Longrightarrow>
   getAppFiles appId False w
     = (Inr \<lparr>app_files.manifest = app_files.manifest cached, app_files.params = app_files.params cached,
              appHtml = appHtml cached, syncTime = Some (JNum (cachedAt cached))\<rparr>, w)"
  by (simp add: getAppFiles_def resolve_def)

lemma deleteApp_bundle_survives:
  assumes "getAppFromCache appId w = Some cached"
  shows "getAppFiles appId False (snd (deleteApp appId w))
     = (Inr \<lparr>app_files.manifest = app_files.manifest cached, app_files.params = app_files.params cached,
              appHtml = appHtml cached, syncTime = Some (JNum (cachedAt cached))\<rparr>,
        snd (deleteApp appId w))"
proof -
  have "getAppFromCache appId (snd (deleteApp appId w)) = Some cached"
    using assms deleteApp_frame [of appId w "[]"]
    by (simp add: getAppFromCache_def getAppCache_def)
  then show ?thesis
    by (rule getAppFiles_cached)
qed

section \<open>Deleting an app\<close>

text \<open>
  C1, on the code. A browser holds the bundle of \<open>app1\<close> in the app files table and
  one cached session. \<open>deleteApp\<close> succeeds; the next \<open>getAppFiles\<close> without
  refresh still returns the bundle cached before, leaving the world as it is (no
  request is made), and the cached session is still there. \<open>deleteApp\<close> removes
  the item \<open>appFiles_app1\<close>, which \<open>getAppFiles\<close> never reads; the lemmas
  \<open>deleteApp_frame\<close> and \<open>deleteApp_bundle_survives\<close> say the same of every world.
\<close>

theorem deleteApp_keeps_cached_bundle:
  "fst (deleteApp ''app1'' one_app) = Inr ok_response
   \<and> getAppFiles ''app1'' False (snd (deleteApp ''app1'' one_app))
       = (Inr \<lparr>app_files.manifest = Some (JObj [(''name'', JStr ''demo'')]),
                app_files.params = Some (JObj []), appHtml = Some (JStr ''<p>old</p>''),
                syncTime = Some (JNum 1000)\<rparr>,
          snd (deleteApp ''app1'' one_app))
   \<and> cacheGet ''session_s1'' (snd (deleteApp ''app1'' one_app))
       = JObj [(''data'', old_session), (''syncTime'', JNum 7)]"
  by (simp add: deleteApp_def getAppFiles_def client_defs io_defs
        cache_defs world_defs auth_defs Let_def)

section \<open>The app files cache is a bounded LRU table\<close>



section \<open>Saving and reading a session\<close>

text \<open>
  C3, as amended. When \<open>saveSession\<close> succeeds with a record \<open>v\<close> and the local
  storage accepts the write of the session item, the next \<open>getSession\<close> without
  refresh returns \<open>v\<close> with the member \<open>syncTime\<close> added (every other member reads
  as in \<open>v\<close>) and leaves the world as it is: it makes no request.
\<close>

theorem saveSession_read_your_writes:
  assumes "saveSession sessionId (JObj v) w = (Inr r, w')"
      and "\<not> setItemThrows w (CACHE_PREFIX @ ''session_'' @ sessionId)"
  shows "getSession sessionId False w' = (Inr (JObj (v @ [(''syncTime'', JNum (now w))])), w')
       \<and> (\<forall>k. k \<noteq> ''syncTime'' \<longrightarrow>
              get_prop (Some (JObj (v @ [(''syncTime'', JNum (now w))]))) k = get_prop (Some (JObj v)) k)"
proof -
  obtain w2 where u: "updateFile (Some (JStr sessionId)) (JsonText (JObj v)) w = (Inr r, w2)"
    and w': "w' = cacheSet (''session_'' @ sessionId)
                    (Some (JObj [(''data'', JObj v), (''syncTime'', JNum (now w2))])) w2"
    using assms(1) by (auto simp: saveSession_def io_defs split: prod.splits sum.splits)
  have "same_cache_except {} w w2"
    using sce_updateFile [of "{}" w "Some (JStr sessionId)" "JsonText (JObj v)"] u by simp
  then have t: "setItemThrows w2 = setItemThrows w" and n: "now w2 = now w"
    by (simp_all add: same_cache_except_def)
  have "cacheGet (''session_'' @ sessionId) w'
          = JObj [(''data'', JObj v), (''syncTime'', JNum (now w))]"
    using assms(2) by (simp add: w' cacheSet_def cacheGet_def t n)
  then have "getSession sessionId False w' = (Inr (JObj (v @ [(''syncTime'', JNum (now w))])), w')"
    by (simp add: getSession_def Let_def set_prop_def resolve_def)
  then show ?thesis
    by (simp add: map_add_def)
qed

text \<open>
  C3 as amended, at the browser that holds one app and one session.
\<close>

theorem saveSession_read_your_writes_witness:
  "saveSession ''s1'' (JObj new_session_value) one_app
     = (Inr ok_response, snd (saveSession ''s1'' (JObj new_session_value) one_app))
   \<and> \<not> setItemThrows one_app (CACHE_PREFIX @ ''session_'' @ ''s1'')
   \<and> getSession ''s1'' False (snd (saveSession ''s1'' (JObj new_session_value) one_app))
       = (Inr (JObj (new_session_value @ [(''syncTime'', JNum (now one_app))])),
          snd (saveSession ''s1'' (JObj new_session_value) one_app))"
proof -
  have "fst (saveSession ''s1'' (JObj new_session_value) one_app) = Inr ok_response"
    by (simp add: saveSession_def client_defs io_defs cache_defs world_defs auth_defs Let_def)
  then have a: "saveSession ''s1'' (JObj new_session_value) one_app
     = (Inr ok_response, snd (saveSession ''s1'' (JObj new_session_value) one_app))"
    by (simp add: prod_eq_iff)
  have b: "\<not> setItemThrows one_app (CACHE_PREFIX @ ''session_'' @ ''s1'')"
    by (simp add: cache_defs world_defs Let_def)
  from saveSession_read_your_writes [OF a b] a b show ?thesis
    by blast
qed

text \<open>
  C3 as stated fails when the local storage rejects the write: \<open>cacheSet\<close> catches
  the failure, \<open>saveSession\<close> succeeds all the same, and \<open>getSession\<close> returns the
  record cached before.
\<close>

theorem saveSession_rejected_cache_write_counterexample:
  "fst (saveSession ''s1'' (JObj new_session_value) full_storage) = Inr ok_response
   \<and> fst (getSession ''s1'' False (snd (saveSession ''s1'' (JObj new_session_value) full_storage)))
       = Inr (JObj [(''name'', JStr ''old''), (''createdAt'', JStr ''2024''),
                    (''data'', JObj [(''count'', JNum 1)]), (''syncTime'', JNum 7)])
   \<and> JObj [(''name'', JStr ''old''), (''createdAt'', JStr ''2024''),
            (''data'', JObj [(''count'', JNum 1)])] \<noteq> JObj new_session_value"
  by (simp add: saveSession_def getSession_def client_defs io_defs
        cache_defs world_defs auth_defs set_prop_def Let_def)

section \<open>A failed save\<close>

text \<open>
  C4, as amended. When \<open>saveSession\<close> fails, the local storage and the app files
  table are what they were before the call. When \<open>saveAppHtml\<close> fails, the app
  files table is what it was, and so is every item of the local storage other than
  the cached file id of \<open>app.html\<close>, which the lookup before the write may have
  stored.
\<close>

theorem failed_save_leaves_document_caches:
  "(isl (fst (saveSession sessionId d w)) \<longrightarrow>
        localStorage (snd (saveSession sessionId d w)) = localStorage w
      \<and> appFilesItem (snd (saveSession sessionId d w)) = appFilesItem w)
   \<and> (isl (fst (saveAppHtml appId content w)) \<longrightarrow>
        appFilesItem (snd (saveAppHtml appId content w)) = appFilesItem w
      \<and> (\<forall>k. k \<noteq> CACHE_PREFIX @ ''fileId_'' @ appId @ ''_app.html'' \<longrightarrow>
             localStorage (snd (saveAppHtml appId content w)) k = localStorage w k))"
proof (intro conjI impI)
  assume f: "isl (fst (saveSession sessionId d w))"
  obtain res w2 where u: "updateFile (Some (JStr sessionId)) (JsonText d) w = (res, w2)"
    by (cases "updateFile (Some (JStr sessionId)) (JsonText d) w")
  with f have "snd (saveSession sessionId d w) = w2"
    by (cases res) (simp_all add: saveSession_def io_defs)
  moreover have "same_cache_except {} w w2"
    using sce_updateFile [of "{}" w "Some (JStr sessionId)" "JsonText d"] u by simp
  ultimately show "localStorage (snd (saveSession sessionId d w)) = localStorage w"
    and "appFilesItem (snd (saveSession sessionId d w)) = appFilesItem w"
    by (auto simp: same_cache_except_def)
next
  let ?K = "{CACHE_PREFIX @ ''fileId_'' @ appId @ ''_'' @ ''app.html''}"
  assume f: "isl (fst (saveAppHtml appId content w))"
  obtain rf w1 where ff: "findFile appId ''app.html'' w = (rf, w1)"
    by (cases "findFile appId ''app.html'' w")
  have s1: "same_cache_except ?K w w1"
    using sce_findFile [of appId "''app.html''" w] ff by simp
  have "same_cache_except ?K w (snd (saveAppHtml appId content w))"
  proof (cases rf)
    case (Inl e)
    with ff s1 show ?thesis
      by (simp add: saveAppHtml_def io_defs)
  next
    case (Inr found)
    obtain rs w2 where ss: "(case found of
              Some f \<Rightarrow> updateFile (file_id f) (RawText content)
            | None \<Rightarrow> createFile (Some (JStr appId)) ''app.html'' (RawText content)) w1 = (rs, w2)"
      by (cases "(case found of
              Some f \<Rightarrow> updateFile (file_id f) (RawText content)
            | None \<Rightarrow> createFile (Some (JStr appId)) ''app.html'' (RawText content)) w1")
    have s2: "same_cache_except ?K w1 w2"
      using sce_save_file [where K = ?K and w = w1 and found = found and content = "RawText content"
                            and parent = "Some (JStr appId)" and n = "''app.html''"] ss
      by simp
    from f ff Inr ss obtain e where "rs = Inl e"
      by (cases rs) (auto simp: saveAppHtml_def io_defs split: option.splits)
    with ff Inr ss have "snd (saveAppHtml appId content w) = w2"
      by (simp add: saveAppHtml_def io_defs)
    with s1 s2 show ?thesis
      by (auto intro: sce_trans)
  qed
  then show "appFilesItem (snd (saveAppHtml appId content w)) = appFilesItem w"
    and "\<forall>k. k \<noteq> CACHE_PREFIX @ ''fileId_'' @ appId @ ''_app.html'' \<longrightarrow>
             localStorage (snd (saveAppHtml appId content w)) k = localStorage w k"
    by (simp_all add: same_cache_except_def)
qed

text \<open>
  C4 as amended, at a Drive that refuses every write.
\<close>

theorem failed_save_leaves_document_caches_witness:
  "isl (fst (saveSession ''s1'' (JObj new_session_value) failing_writes))
   \<and> isl (fst (saveAppHtml ''app1'' ''<p>new</p>'' failing_writes))
   \<and> localStorage (snd (saveSession ''s1'' (JObj new_session_value) failing_writes))
       = localStorage failing_writes
   \<and> appFilesItem (snd (saveAppHtml ''app1'' ''<p>new</p>'' failing_writes))
       = appFilesItem failing_writes"
proof -
  have a: "isl (fst (saveSession ''s1'' (JObj new_session_value) failing_writes))"
    by (simp add: saveSession_def client_defs io_defs cache_defs world_defs auth_defs Let_def)
  have b: "isl (fst (saveAppHtml ''app1'' ''<p>new</p>'' failing_writes))"
    by (simp add: saveAppHtml_def client_defs io_defs cache_defs world_defs auth_defs Let_def)
  from failed_save_leaves_document_caches
         [of "''s1''" "JObj new_session_value" failing_writes "''app1''" "''<p>new</p>''"] a b
  show ?thesis
    by blast
qed

text \<open>
  C4 as stated fails for \<open>saveAppHtml\<close>: the id of \<open>app.html\<close> is not cached, the
  lookup finds it and caches it, then the write fails; the local storage has gained
  the file id.
\<close>

theorem saveAppHtml_failed_write_counterexample:
  "fst (saveAppHtml ''app1'' ''<p>new</p>'' failing_writes) = Inl FailedToUpdateFile
   \<and> localStorage failing_writes (CACHE_PREFIX @ ''fileId_app1_app.html'') = Absent
   \<and> localStorage (snd (saveAppHtml ''app1'' ''<p>new</p>'' failing_writes))
        (CACHE_PREFIX @ ''fileId_app1_app.html'') = Parsed (JStr ''f1'')"
  by (simp add: saveAppHtml_def client_defs io_defs
        cache_defs world_defs auth_defs Let_def)

section \<open>Calls without a credential\<close>

text \<open>
  C5, on the code. With nobody signed in, \<open>getToken\<close> returns \<open>null\<close>.
  \<open>request\<close> then throws \<open>Not authenticated\<close> and makes no request, but
  \<open>getFileContent\<close>, \<open>updateFile\<close> and \<open>createFile\<close> each hand a request to
  \<open>fetch\<close>, with the header \<open>Bearer null\<close>, and fail with their own error once
  the Drive has refused it.
\<close>

theorem unauthenticated_file_calls_reach_network:
  "getToken signed_out_browser = (None, signed_out_browser)
   \<and> request (FilesQuery ''q'') signed_out_browser = (Inl NotAuthenticated, signed_out_browser)
   \<and> getFileContent (Some (JStr ''f1'')) signed_out_browser
       = (Inl FailedToGetFileContent,
          signed_out_browser\<lparr>fetched := [\<lparr>call = MediaGet (Some (JStr ''f1'')),
                                            authorization = ''Bearer null''\<rparr>]\<rparr>)
   \<and> updateFile (Some (JStr ''f1'')) (RawText ''x'') signed_out_browser
       = (Inl FailedToUpdateFile,
          signed_out_browser\<lparr>fetched := [\<lparr>call = MediaUpdate (Some (JStr ''f1'')) (RawText ''x''),
                                            authorization = ''Bearer null''\<rparr>]\<rparr>)
   \<and> createFile (Some (JStr ''app1'')) ''app.html'' (RawText ''x'') signed_out_browser
       = (Inl (FailedToCreateFile ''app.html''),
          signed_out_browser\<lparr>fetched := [\<lparr>call = MultipartUpload (Some (JStr ''app1'')) ''app.html'' (RawText ''x''),
                                            authorization = ''Bearer null''\<rparr>]\<rparr>)"
  by (simp add: client_defs io_defs world_defs auth_defs Let_def)

section \<open>Creating a session\<close>

text \<open>
  C6, on the code. \<open>createSession\<close> succeeds and caches the bare record under
  \<open>session_file1\<close>, not wrapped as \<open>{data, syncTime}\<close>. The next \<open>getSession\<close>
  without refresh is served from the cache and makes no request, but it spreads the
  member \<open>data\<close> of the cached value, the empty object: the record it returns has
  no \<open>name\<close>, no \<open>createdAt\<close> and no \<open>data\<close>.
\<close>

theorem createSession_seeds_unreadable_entry:
  "fst (createSession ''app1'' ''Default'' browser)
     = Inr \<lparr>new_id = ''file1'', new_name = ''Default'',
            new_data = JObj [(''name'', JStr ''Default''),
                             (''createdAt'', JStr ''1970-01-01T00:00:01.000Z''),
                             (''data'', JObj [])]\<rparr>
   \<and> cacheGet ''session_file1'' (snd (createSession ''app1'' ''Default'' browser))
     = JObj [(''name'', JStr ''Default''), (''createdAt'', JStr ''1970-01-01T00:00:01.000Z''),
             (''data'', JObj [])]
   \<and> getSession ''file1'' False (snd (createSession ''app1'' ''Default'' browser))
     = (Inr (JObj []), snd (createSession ''app1'' ''Default'' browser))"
  by (simp add: createSession_def getSessionsFolderId_def getSession_def client_defs io_defs
        cache_defs world_defs auth_defs set_prop_def Let_def)

section \<open>Saving a field of a bundle\<close>

text \<open>
  C7, as amended. After a successful \<open>saveAppHtml\<close>, when the local storage
  accepts the write of the table, the cached entry of the app, if there is one, holds
  the html just saved. \<open>saveManifest\<close> and \<open>saveParams\<close> never write the app
  files table.
\<close>

theorem saveAppHtml_refreshes_cached_html:
  assumes "saveAppHtml appId content w = (Inr r, w')"
      and "\<not> setItemThrows w APP_CACHE_KEY"
      and "getAppFromCache appId w' = Some e"
  shows "appHtml e = Some (JStr content)
       \<and> appFilesItem (snd (saveManifest appId m w)) = appFilesItem w
       \<and> appFilesItem (snd (saveParams appId p w)) = appFilesItem w"
proof -
  let ?K = "{CACHE_PREFIX @ ''fileId_'' @ appId @ ''_'' @ ''app.html''}"
  obtain found w1 w2 where ff: "findFile appId ''app.html'' w = (Inr found, w1)"
    and ss: "(case found of
              Some f \<Rightarrow> updateFile (file_id f) (RawText content)
            | None \<Rightarrow> createFile (Some (JStr appId)) ''app.html'' (RawText content)) w1 = (Inr r, w2)"
    and w': "w' = (case getAppFromCache appId w2 of
                     Some cached \<Rightarrow> setAppCache appId (cached\<lparr>appHtml := Some (JStr content)\<rparr>) w2
                   | None \<Rightarrow> w2)"
    using assms(1)
    by (auto simp: saveAppHtml_def io_defs split: prod.splits sum.splits option.splits)
  have "same_cache_except ?K w w1"
    using sce_findFile [of appId "''app.html''" w] ff by simp
  moreover have "same_cache_except ?K w1 w2"
    using sce_save_file [where K = ?K and w = w1 and found = found and content = "RawText content"
                            and parent = "Some (JStr appId)" and n = "''app.html''"] ss
    by simp
  ultimately have "same_cache_except ?K w w2"
    by (rule sce_trans)
  then have t: "\<not> setItemThrows w2 APP_CACHE_KEY"
    using assms(2) by (simp add: same_cache_except_def)
  have html: "appHtml e = Some (JStr content)"
  proof (cases "getAppFromCache appId w2")
    case None
    with w' assms(3) show ?thesis by simp
  next
    case (Some cached)
    with w' assms(3)
    have "getAppFromCache appId (setAppCache appId (cached\<lparr>appHtml := Some (JStr content)\<rparr>) w2) = Some e"
      by simp
    from setAppCache_lookup [OF t this] show ?thesis
      by simp
  qed
  have "appFilesItem (snd (saveManifest appId m w)) = appFilesItem w"
    using sce_saveManifest [of appId w m] by (simp add: same_cache_except_def)
  moreover have "appFilesItem (snd (saveParams appId p w)) = appFilesItem w"
    using sce_saveParams [of appId w p] by (simp add: same_cache_except_def)
  ultimately show ?thesis
    using html by simp
qed

text \<open>
  C7 as amended, at the browser that holds the bundle of \<open>app1\<close>.
\<close>

theorem saveAppHtml_refreshes_cached_html_witness:
  "saveAppHtml ''app1'' ''<p>new</p>'' one_app
     = (Inr ok_response, snd (saveAppHtml ''app1'' ''<p>new</p>'' one_app))
   \<and> \<not> setItemThrows one_app APP_CACHE_KEY
   \<and> getAppFromCache ''app1'' (snd (saveAppHtml ''app1'' ''<p>new</p>'' one_app))
       = Some \<lparr>app_files.manifest = Some (JObj [(''name'', JStr ''demo'')]),
               app_files.params = Some (JObj []), appHtml = Some (JStr ''<p>new</p>''),
               syncTime = Some (JNum 0), cachedAt = 1000\<rparr>
   \<and> appHtml \<lparr>app_files.manifest = Some (JObj [(''name'', JStr ''demo'')]),
               app_files.params = Some (JObj []), appHtml = Some (JStr ''<p>new</p>''),
               syncTime = Some (JNum 0), cachedAt = 1000\<rparr> = Some (JStr ''<p>new</p>'')"
proof -
  have "fst (saveAppHtml ''app1'' ''<p>new</p>'' one_app) = Inr ok_response"
    by (simp add: saveAppHtml_def client_defs io_defs cache_defs world_defs auth_defs Let_def)
  then have a: "saveAppHtml ''app1'' ''<p>new</p>'' one_app
     = (Inr ok_response, snd (saveAppHtml ''app1'' ''<p>new</p>'' one_app))"
    by (simp add: prod_eq_iff)
  have b: "\<not> setItemThrows one_app APP_CACHE_KEY"
    by (simp add: cache_defs world_defs Let_def)
  have c: "getAppFromCache ''app1'' (snd (saveAppHtml ''app1'' ''<p>new</p>'' one_app))
       = Some \<lparr>app_files.manifest = Some (JObj [(''name'', JStr ''demo'')]),
               app_files.params = Some (JObj []), appHtml = Some (JStr ''<p>new</p>''),
               syncTime = Some (JNum 0), cachedAt = 1000\<rparr>"
    by (simp add: saveAppHtml_def client_defs io_defs cache_defs world_defs auth_defs Let_def)
  from saveAppHtml_refreshes_cached_html [OF a b c] a b c show ?thesis
    by blast
qed

text \<open>
  C7 as stated fails for the manifest: \<open>saveManifest\<close> succeeds and the cached
  entry still holds the manifest cached before.
\<close>

theorem saveManifest_leaves_cache_counterexample:
  "fst (saveManifest ''app1'' (JObj [(''name'', JStr ''renamed'')]) one_app) = Inr ok_response
   \<and> map_option app_files.manifest
        (getAppFromCache ''app1'' (snd (saveManifest ''app1'' (JObj [(''name'', JStr ''renamed'')]) one_app)))
       = Some (Some (JObj [(''name'', JStr ''demo'')]))
   \<and> Some (JObj [(''name'', JStr ''demo'')]) \<noteq> Some (JObj [(''name'', JStr ''renamed'')])"
  by (simp add: saveManifest_def client_defs io_defs
        cache_defs world_defs auth_defs Let_def)

section \<open>The guest protocol\<close>

lemma type_prop_truthy: "get_prop v k = Some x \<Longrightarrow> truthy v"
  by (cases v rule: truthy.cases) simp_all

text \<open>
  C8, as amended. A \<open>ready\<close> message from the guest is answered with one
  \<open>init\<close> message to the guest, carrying the manifest and the params of the host
  and, as its session, the data of the current session when that data is truthy, and
  an empty object when there is no session or its data is falsy. The host state is
  not changed by it, so a second \<open>ready\<close> is answered by a second \<open>init\<close> computed
  in the same way from the state at that time.
\<close>

theorem ready_answered_with_init:
  assumes "iframe h = Some f"
      and "contentWindow f = Some cw"
      and "source event = Some cw"
      and "get_prop (event_data event) ''type'' = Some (JStr ''ready'')"
  shows "handleMessage event (h, w)
           = (h, w\<lparr>posted := posted w @
                     [(cw, Init (app_runner.manifest h) (app_runner.params h) (session_for_init h))]\<rparr>)
       \<and> handleMessage event (handleMessage event (h, w))
           = (h, w\<lparr>posted := posted w @
                     [(cw, Init (app_runner.manifest h) (app_runner.params h) (session_for_init h)),
                      (cw, Init (app_runner.manifest h) (app_runner.params h) (session_for_init h))]\<rparr>)"
proof -
  have t: "truthy (event_data event)"
    using assms(4) by (rule type_prop_truthy)
  have one: "\<And>w. handleMessage event (h, w)
           = (h, w\<lparr>posted := posted w @
                     [(cw, Init (app_runner.manifest h) (app_runner.params h) (session_for_init h))]\<rparr>)"
    using assms t by (simp add: Let_def session_for_init_def split: option.splits)
  show ?thesis
    unfolding one by simp
qed

text \<open>
  C8 as amended, at a host whose session holds the data \<open>null\<close>.
\<close>

theorem ready_answered_with_init_witness:
  "iframe host_with_null_data = Some guest_frame
   \<and> contentWindow guest_frame = Some 1
   \<and> source ready_event = Some 1
   \<and> get_prop (event_data ready_event) ''type'' = Some (JStr ''ready'')
   \<and> handleMessage ready_event (host_with_null_data, browser)
       = (host_with_null_data,
          browser\<lparr>posted := posted browser @
             [(1, Init (app_runner.manifest host_with_null_data) (app_runner.params host_with_null_data)
                    (session_for_init host_with_null_data))]\<rparr>)"
proof -
  have a: "iframe host_with_null_data = Some guest_frame"
    by (simp add: host_with_null_data_def host_without_session_def)
  have b: "contentWindow guest_frame = Some 1"
    by (simp add: guest_frame_def)
  have c: "source ready_event = Some 1"
    by (simp add: ready_event_def)
  have d: "get_prop (event_data ready_event) ''type'' = Some (JStr ''ready'')"
    by (simp add: ready_event_def)
  from ready_answered_with_init [OF a b c d, of browser] a b c d show ?thesis
    by blast
qed

text \<open>
  C8 as stated fails when a session is loaded whose data is falsy: with the data
  \<open>null\<close>, the \<open>init\<close> message carries an empty object, not the data.
\<close>

theorem ready_with_falsy_data_counterexample:
  "handleMessage ready_event (host_with_null_data, browser)
     = (host_with_null_data, browser\<lparr>posted := [(1, Init (Some (JObj [(''name'', JStr ''demo'')]))
                                                  (Some (JObj [])) (Some (JObj [])))]\<rparr>)
   \<and> map_option data (currentSession host_with_null_data) = Some (Some JNull)
   \<and> Some JNull \<noteq> Some (JObj [])"
  by (simp add: host_with_null_data_def host_without_session_def ready_event_def guest_frame_def
        browser_def Let_def)

text \<open>
  The guard of \<open>handleMessage\<close>: a message that arrives while the host holds no
  iframe, or whose source is not the content window of the iframe it holds, changes
  nothing in the host and nothing in the world.
\<close>

lemma handleMessage_guard:
  assumes "iframe h = None \<or> source event \<noteq> contentWindow (the (iframe h))"
  shows "handleMessage event (h, w) = (h, w)"
  using assms by (auto split: option.splits)


text \<open>
  C10. An \<open>update-session\<close> message from the guest that arrives while
  \<open>currentSession\<close> is \<open>null\<close> is ignored: the host and the world stay as they
  are, so nothing is saved and no \<open>session-saved\<close> message is posted.
\<close>

theorem update_without_session_ignored:
  assumes "iframe h = Some f"
      and "source event = contentWindow f"
      and "get_prop (event_data event) ''type'' = Some (JStr ''update-session'')"
      and "currentSession h = None"
  shows "handleMessage event (h, w) = (h, w)"
  using assms by (simp add: Let_def)

text \<open>
  C10, at a host that has a guest and no session.
\<close>

theorem update_without_session_ignored_witness:
  "iframe host_without_session = Some guest_frame
   \<and> source update_event = contentWindow guest_frame
   \<and> get_prop (event_data update_event) ''type'' = Some (JStr ''update-session'')
   \<and> currentSession host_without_session = None
   \<and> handleMessage update_event (host_without_session, one_app) = (host_without_session, one_app)"
proof -
  have a: "iframe host_without_session = Some guest_frame"
    by (simp add: host_without_session_def)
  have b: "source update_event = contentWindow guest_frame"
    by (simp add: update_event_def guest_frame_def)
  have c: "get_prop (event_data update_event) ''type'' = Some (JStr ''update-session'')"
    by (simp add: update_event_def)
  have d: "currentSession host_without_session = None"
    by (simp add: host_without_session_def)
  from update_without_session_ignored [OF a b c d] a b c d show ?thesis
    by blast
qed

end
